theory Spec2Isabelle
  imports
    Main
    "HOL-Library.Char_ord"
    "HOL-Library.List_Lexorder"
    "HOL-Library.Product_Lexorder"
    "HOL-Library.Sublist"
    "HOL-Library.Multiset"
    "HOL-Library.Monad_Syntax"
begin

section \<open>Python strings\<close>

text \<open>
  A Python \<open>str\<close> is modelled as a \<open>string\<close>: an ASCII character is itself, any other
  code point stands as its UTF-8 bytes. The \<open>str\<close> methods below are exact on ASCII text;
  bytes above 127 are uncased and are neither whitespace nor digits (Python also knows
  some non-ASCII whitespace, digits and cased letters, which are outside this model).
\<close>

definition py_isspace :: "char \<Rightarrow> bool" where
  "py_isspace c = (let n = (of_char c :: nat) in (9 \<le> n \<and> n \<le> 13) \<or> (28 \<le> n \<and> n \<le> 32))"

definition py_isdigit :: "char \<Rightarrow> bool" where
  "py_isdigit c = (let n = (of_char c :: nat) in 48 \<le> n \<and> n \<le> 57)"

definition lower_char :: "char \<Rightarrow> char" where
  "lower_char c = (let n = (of_char c :: nat) in if 65 \<le> n \<and> n \<le> 90 then char_of (n + 32) else c)"

definition upper_char :: "char \<Rightarrow> char" where
  "upper_char c = (let n = (of_char c :: nat) in if 97 \<le> n \<and> n \<le> 122 then char_of (n - 32) else c)"

definition py_lower :: "string \<Rightarrow> string" where
  "py_lower s = map lower_char s"

definition py_upper :: "string \<Rightarrow> string" where
  "py_upper s = map upper_char s"

definition py_lstrip :: "string \<Rightarrow> string" where
  "py_lstrip s = dropWhile py_isspace s"

definition py_rstrip :: "string \<Rightarrow> string" where
  "py_rstrip s = rev (dropWhile py_isspace (rev s))"

definition py_strip :: "string \<Rightarrow> string" where
  "py_strip s = py_lstrip (py_rstrip s)"

text \<open>\<open>needle in hay\<close> on strings: \<open>needle\<close> occurs as a contiguous substring.\<close>

fun py_in :: "string \<Rightarrow> string \<Rightarrow> bool" where
  "py_in needle [] = (needle = [])"
| "py_in needle (c # cs) = (prefix needle (c # cs) \<or> py_in needle cs)"

definition py_startswith :: "string \<Rightarrow> string \<Rightarrow> bool" where
  "py_startswith s p = prefix p s"

text \<open>\<open>sep.join(parts)\<close>.\<close>

fun py_join :: "string \<Rightarrow> string list \<Rightarrow> string" where
  "py_join sep [] = []"
| "py_join sep [x] = x"
| "py_join sep (x # y # ys) = x @ sep @ py_join sep (y # ys)"

text \<open>\<open>str(n)\<close> for an integer: decimal digits, with a minus sign when negative.\<close>

definition digit_char :: "nat \<Rightarrow> char" where
  "digit_char d = char_of (48 + d)"

fun digits_of :: "nat \<Rightarrow> string" where
  "digits_of n = (if n < 10 then [digit_char n] else digits_of (n div 10) @ [digit_char (n mod 10)])"

declare digits_of.simps [simp del]

definition py_str :: "int \<Rightarrow> string" where
  "py_str i = (if i < 0 then CHR ''-'' # digits_of (nat (- i)) else digits_of (nat i))"

text \<open>\<open>int(ds)\<close> for a run of decimal digits.\<close>

definition py_int :: "string \<Rightarrow> int" where
  "py_int ds = fold (\<lambda>c n. 10 * n + (int (of_char c) - 48)) ds 0"

text \<open>
  \<open>s.splitlines()\<close>: the line boundaries of ASCII text are \<open>\n\<close>, \<open>\r\<close>, \<open>\r\n\<close>,
  \<open>\v\<close>, \<open>\f\<close> and the separators \<open>0x1c\<close>, \<open>0x1d\<close>, \<open>0x1e\<close>; boundaries are not
  kept and no empty last line is produced.
\<close>

definition is_linebreak :: "char \<Rightarrow> bool" where
  "is_linebreak c = (let n = (of_char c :: nat) in (10 \<le> n \<and> n \<le> 13) \<or> (28 \<le> n \<and> n \<le> 30))"

fun splitlines_acc :: "string \<Rightarrow> string \<Rightarrow> string list" where
  "splitlines_acc cur [] = (if cur = [] then [] else [cur])"
| "splitlines_acc cur [c] = (if is_linebreak c then [cur] else [cur @ [c]])"
| "splitlines_acc cur (c # d # cs) =
     (if c = CHR 0x0D \<and> d = CHR 0x0A then cur # splitlines_acc [] cs
      else if is_linebreak c then cur # splitlines_acc [] (d # cs)
      else splitlines_acc (cur @ [c]) (d # cs))"

definition py_splitlines :: "string \<Rightarrow> string list" where
  "py_splitlines s = splitlines_acc [] s"

section \<open>Data model\<close>

record EnvelopeRow =
  env_id :: int
  env_line :: string

record FolderRow =
  name :: string
  desc :: string

datatype error = HimalayaError string

section \<open>Folder normalization\<close>

text \<open>
  The loop of \<open>_normalize_folders\<close>: one step per input row, on the pair of the set
  \<open>seen\<close> and the list \<open>unique\<close>.
\<close>

definition normalize_step :: "FolderRow \<Rightarrow> string set \<times> FolderRow list \<Rightarrow> string set \<times> FolderRow list" where
  "normalize_step row st =
     (let key = py_lower (py_strip (name row)) in
      if key = [] \<or> key \<in> fst st then st
      else (insert key (fst st),
            snd st @ [\<lparr>name = py_strip (name row), desc = py_strip (desc row)\<rparr>]))"

definition unique_folders :: "FolderRow list \<Rightarrow> FolderRow list" where
  "unique_folders rows = snd (fold normalize_step rows ({}, []))"

definition is_inbox :: "FolderRow \<Rightarrow> bool" where
  "is_inbox row = (py_upper (name row) = ''INBOX'')"

definition folder_sort_key :: "FolderRow \<Rightarrow> nat \<times> string" where
  "folder_sort_key row = (if is_inbox row then 0 else 1, py_lower (name row))"

definition normalize_folders :: "FolderRow list \<Rightarrow> FolderRow list" where
  "normalize_folders rows =
     (let unique = unique_folders rows;
          has_inbox = list_ex is_inbox unique
      in if \<not> has_inbox then \<lparr>name = ''INBOX'', desc = ''Inbox''\<rparr> # unique
         else sort_key folder_sort_key unique)"

section \<open>Command adapter\<close>

text \<open>
  A finished subprocess: the fields of \<open>subprocess.CompletedProcess\<close> that the adapter
  reads. The backend is the environment: \<open>be n cmd input\<close> is what the \<open>n\<close>-th
  subprocess spawned in a session returns when it is started with the argument vector
  \<open>cmd\<close> and the standard input \<open>input\<close>. The state threaded through the adapter is
  the number of subprocesses spawned so far. Debug logging is left out: it does not
  change any returned value.
\<close>

record proc =
  returncode :: int
  stdout :: string
  stderr :: string

type_synonym backend = "nat \<Rightarrow> string list \<Rightarrow> string option \<Rightarrow> proc"

text \<open>
  \<open>_sanitize_output\<close>: the regular expression \<open>\x1B\[[0-?]*[ -/]*[@-~]\<close>. Its three
  character classes are pairwise disjoint, so the greedy match is the only candidate.
\<close>

definition is_ansi_param :: "char \<Rightarrow> bool" where
  "is_ansi_param c = (let n = (of_char c :: nat) in 48 \<le> n \<and> n \<le> 63)"

definition is_ansi_intermediate :: "char \<Rightarrow> bool" where
  "is_ansi_intermediate c = (let n = (of_char c :: nat) in 32 \<le> n \<and> n \<le> 47)"

definition is_ansi_final :: "char \<Rightarrow> bool" where
  "is_ansi_final c = (let n = (of_char c :: nat) in 64 \<le> n \<and> n \<le> 126)"

text \<open>The rest of the text after an escape sequence that starts at its head, if one does.\<close>

fun ansi_escape_match :: "string \<Rightarrow> string option" where
  "ansi_escape_match (e # b # r) =
     (if e = CHR 0x1B \<and> b = CHR ''[''
      then (case dropWhile is_ansi_intermediate (dropWhile is_ansi_param r) of
              [] \<Rightarrow> None
            | f # r' \<Rightarrow> if is_ansi_final f then Some r' else None)
      else None)"
| "ansi_escape_match _ = None"

lemma ansi_escape_match_shorter:
  "ansi_escape_match s = Some r \<Longrightarrow> length r < length s"
proof (cases s rule: ansi_escape_match.cases)
  case (1 e b t)
  assume m: "ansi_escape_match s = Some r"
  let ?d = "dropWhile is_ansi_intermediate (dropWhile is_ansi_param t)"
  have "length ?d \<le> length t"
    by (meson length_dropWhile_le order_trans)
  moreover from m 1 obtain f where "?d = f # r"
    by (auto split: if_splits list.splits)
  ultimately show ?thesis using 1 by simp
qed simp_all

function ansi_escape_sub :: "string \<Rightarrow> string" where
  "ansi_escape_sub [] = []"
| "ansi_escape_sub (c # cs) =
     (case ansi_escape_match (c # cs) of
        Some rest \<Rightarrow> ansi_escape_sub rest
      | None \<Rightarrow> c # ansi_escape_sub cs)"
  by pat_completeness auto
termination
  by (relation "measure length") (auto dest: ansi_escape_match_shorter)

definition sanitize_output :: "string \<Rightarrow> string" where
  "sanitize_output text = (if text = [] then [] else py_strip (ansi_escape_sub text))"

definition combined_lower :: "string \<Rightarrow> string \<Rightarrow> string" where
  "combined_lower out err = py_lower (out @ [CHR 0x0A] @ err)"

definition is_soft_success :: "string \<Rightarrow> string \<Rightarrow> bool" where
  "is_soft_success out err = py_in ''successfully'' (combined_lower out err)"

definition is_quiet_unsupported :: "string \<Rightarrow> string \<Rightarrow> bool" where
  "is_quiet_unsupported out err =
     py_in (''unexpected argument '' @ [CHR 0x27] @ ''--quiet'' @ [CHR 0x27]) (combined_lower out err)"

definition strip_quiet_arg :: "string list \<Rightarrow> string list" where
  "strip_quiet_arg cmd = (if ''--quiet'' \<in> set cmd then remove1 ''--quiet'' cmd else cmd)"

definition is_send_copy_failure :: "string list \<Rightarrow> string \<Rightarrow> string \<Rightarrow> bool" where
  "is_send_copy_failure cmd out err =
     (let joined_cmd = py_lower (py_join '' '' cmd) in
      if \<not> py_in ''message send'' joined_cmd then False
      else
        let combined = combined_lower out err;
            missing_folder_case =
              (py_in ''cannot add imap message'' combined
               \<and> py_in ''cannot resolve imap task'' combined
               \<and> (py_in (''folder doesn'' @ [CHR 0x27] @ ''t exist'') combined
                    \<or> py_in ''folder does not exist'' combined));
            legacy_stream_case =
              (py_in ''cannot add imap message'' combined
               \<and> (py_in ''stream error'' combined
                    \<or> py_in ''unexpected tag in command completion result'' combined))
        in missing_folder_case \<or> legacy_stream_case)"

definition is_missing_trash_error :: "string \<Rightarrow> bool" where
  "is_missing_trash_error text =
     (let lowered = py_lower text in
      py_in ''no folder trash'' lowered
      \<or> (py_in ''trash'' lowered \<and> py_in ''cannot move imap message'' lowered))"

definition truncate_str :: "string \<Rightarrow> nat \<Rightarrow> string" where
  "truncate_str text limit = (if length text \<le> limit then text else take (limit - 3) text @ ''...'')"

text \<open>\<open>a or b\<close> on strings: \<open>a\<close> unless it is empty.\<close>

definition py_or :: "string \<Rightarrow> string \<Rightarrow> string" where
  "py_or a b = (if a \<noteq> [] then a else b)"

text \<open>The error text of a failed command.\<close>

definition failure_text :: "string list \<Rightarrow> string \<Rightarrow> string \<Rightarrow> string" where
  "failure_text cmd clean_stdout clean_stderr =
     (let err = py_strip (py_or clean_stderr clean_stdout) in
      if err = [] then ''Command failed: '' @ py_join '' '' cmd else err)"

text \<open>
  \<open>_run\<close>: the result and the number of subprocesses spawned after the call.
\<close>

function run :: "backend \<Rightarrow> nat \<Rightarrow> string list \<Rightarrow> (error + string) \<times> nat" where
  "run be n cmd =
     (let p = be n cmd None;
          clean_stdout = sanitize_output (stdout p);
          clean_stderr = sanitize_output (stderr p)
      in if returncode p \<noteq> 0 \<and> ''--quiet'' \<in> set cmd
            \<and> is_quiet_unsupported clean_stdout clean_stderr
         then run be (Suc n) (strip_quiet_arg cmd)
         else if returncode p \<noteq> 0 \<and> is_soft_success clean_stdout clean_stderr
         then (Inr clean_stdout, Suc n)
         else if returncode p \<noteq> 0
         then (Inl (HimalayaError (failure_text cmd clean_stdout clean_stderr)), Suc n)
         else (Inr clean_stdout, Suc n))"
  by pat_completeness auto
termination
  by (relation "measure (\<lambda>(be, n, cmd). length cmd)")
     (auto simp: strip_quiet_arg_def length_remove1 dest: length_pos_if_in_set)

declare run.simps [simp del]

definition send_copy_warning :: string where
  "send_copy_warning =
     ''Email sent, but saving a copy via IMAP failed. ''
     @ ''Your server may be legacy/incompatible with this append flow. ''
     @ ''Try disabling message.send.save-copy in config.''"

function run_with_stdin :: "backend \<Rightarrow> nat \<Rightarrow> string list \<Rightarrow> string \<Rightarrow> (error + string) \<times> nat" where
  "run_with_stdin be n cmd raw_input =
     (let p = be n cmd (Some raw_input);
          clean_stdout = sanitize_output (stdout p);
          clean_stderr = sanitize_output (stderr p)
      in if returncode p \<noteq> 0 \<and> ''--quiet'' \<in> set cmd
            \<and> is_quiet_unsupported clean_stdout clean_stderr
         then run_with_stdin be (Suc n) (strip_quiet_arg cmd) raw_input
         else if returncode p \<noteq> 0 \<and> is_soft_success clean_stdout clean_stderr
         then (Inr clean_stdout, Suc n)
         else if returncode p \<noteq> 0 \<and> is_send_copy_failure cmd clean_stdout clean_stderr
         then (Inr send_copy_warning, Suc n)
         else if returncode p \<noteq> 0
         then (Inl (HimalayaError (failure_text cmd clean_stdout clean_stderr)), Suc n)
         else (Inr clean_stdout, Suc n))"
  by pat_completeness auto
termination
  by (relation "measure (\<lambda>(be, n, cmd, raw_input). length cmd)")
     (auto simp: strip_quiet_arg_def length_remove1 dest: length_pos_if_in_set)

declare run_with_stdin.simps [simp del]

text \<open>The client: the fields of \<open>HimalayaClient\<close>.\<close>

record client =
  binary :: string
  account :: string
  folder :: string
  page_size :: int
  preview_read :: bool

definition account_args :: "client \<Rightarrow> string list" where
  "account_args c = (if account c \<noteq> [] then [''--account'', account c] else [])"

definition delete_cmd :: "client \<Rightarrow> int \<Rightarrow> string list" where
  "delete_cmd c envelope_id =
     [binary c, ''--quiet'', ''message'', ''delete'', ''--folder'', folder c, py_str envelope_id]
     @ account_args c"

definition delete_fallback_cmd :: "client \<Rightarrow> int \<Rightarrow> string list" where
  "delete_fallback_cmd c envelope_id =
     [binary c, ''--quiet'', ''flag'', ''add'', ''--folder'', folder c, py_str envelope_id,
      ''deleted''] @ account_args c"

definition fallback_failed_text :: "string \<Rightarrow> string" where
  "fallback_failed_text fallback_err =
     ''Failed to delete email: Trash folder is missing and deleted-flag ''
     @ ''fallback also failed. Error: '' @ fallback_err"

definition delete_message :: "backend \<Rightarrow> nat \<Rightarrow> client \<Rightarrow> int \<Rightarrow> (error + string) \<times> nat" where
  "delete_message be n c envelope_id =
     (case run be n (delete_cmd c envelope_id) of
        (Inr out, n') \<Rightarrow> (Inr out, n')
      | (Inl (HimalayaError raw_err), n') \<Rightarrow>
          if \<not> is_missing_trash_error raw_err then (Inl (HimalayaError raw_err), n')
          else (case run be n' (delete_fallback_cmd c envelope_id) of
                  (Inr out, n'') \<Rightarrow> (Inr out, n'')
                | (Inl (HimalayaError fallback_err), n'') \<Rightarrow>
                    (Inl (HimalayaError (fallback_failed_text fallback_err)), n'')))"

text \<open>Sample backends, used to run the adapter on concrete inputs.\<close>

definition soft_backend :: backend where
  "soft_backend n cmd inp = \<lparr>returncode = 1, stdout = ''Message successfully sent!'', stderr = ''''\<rparr>"

definition long_error_backend :: backend where
  "long_error_backend n cmd inp = \<lparr>returncode = 1, stdout = '''', stderr = replicate 500 (CHR ''x'')\<rparr>"


definition trash_backend :: backend where
  "trash_backend n cmd inp =
     (if n = 0 then \<lparr>returncode = 1, stdout = '''', stderr = ''Error: no folder Trash''\<rparr>
      else \<lparr>returncode = 0, stdout = ''Flag(s) deleted successfully added!'', stderr = ''''\<rparr>)"

definition sample_client :: client where
  "sample_client = \<lparr>binary = ''himalaya'', account = '''', folder = ''INBOX'', page_size = 20,
                     preview_read = False\<rparr>"

definition fail_backend :: backend where
  "fail_backend n cmd inp = \<lparr>returncode = 1, stdout = '''', stderr = ''connection refused''\<rparr>"

section \<open>Account enumeration\<close>

text \<open>
  A parsed TOML value, as far as the configuration lookup inspects it; a table is an
  association list in document order (its keys are distinct: the parser rejects a
  document that sets a key twice).
\<close>

datatype toml = TString string | TBool bool | TTable "(string \<times> toml) list" | TOther

text \<open>
  What opening one candidate path gives: no file there, a file that does not parse, or
  the parsed document.
\<close>

datatype config_file = NotAFile | Unparsable | Loaded "(string \<times> toml) list"

definition default_is_true :: "toml \<Rightarrow> bool" where
  "default_is_true account_cfg =
     (case account_cfg of
        TTable t \<Rightarrow> map_of t ''default'' = Some (TBool True)
      | _ \<Rightarrow> False)"

text \<open>
  The inner loop of \<open>list_accounts_from_config\<close>, on \<open>accounts\<close>, \<open>seen\<close> and
  \<open>default_account\<close>.
\<close>

definition account_step ::
  "string \<times> toml \<Rightarrow> string list \<times> string set \<times> string \<Rightarrow> string list \<times> string set \<times> string" where
  "account_step item st =
     (case st of (accounts, seen, default_account) \<Rightarrow>
        let name = py_strip (fst item) in
        if name = [] then st
        else let key = py_lower name in
          if key \<in> seen then st
          else (accounts @ [name], insert key seen,
                if default_account = [] \<and> default_is_true (snd item) then name
                else default_account))"

text \<open>The \<open>accounts\<close> table of a candidate, when the file loads and has one.\<close>

definition raw_accounts_of :: "config_file \<Rightarrow> (string \<times> toml) list option" where
  "raw_accounts_of file =
     (case file of
        Loaded data \<Rightarrow> (case map_of data ''accounts'' of Some (TTable t) \<Rightarrow> Some t | _ \<Rightarrow> None)
      | _ \<Rightarrow> None)"

definition file_step ::
  "string \<times> config_file \<Rightarrow> (string list \<times> string set \<times> string) \<times> string
   \<Rightarrow> (string list \<times> string set \<times> string) \<times> string" where
  "file_step cand st =
     (case raw_accounts_of (snd cand) of
        None \<Rightarrow> st
      | Some raw_accounts \<Rightarrow>
          (fold account_step raw_accounts (fst st),
           if snd st = [] then fst cand else snd st))"

text \<open>
  \<open>list_accounts_from_config\<close>, on the candidate paths paired with what each holds:
  the account names, the default account and the source path.
\<close>

definition list_accounts_from_config :: "(string \<times> config_file) list \<Rightarrow> string list \<times> string \<times> string" where
  "list_accounts_from_config candidates =
     (case fold file_step candidates (([], {}, []), []) of
        ((accounts, seen, default_account), source_path) \<Rightarrow>
          (accounts, default_account, source_path))"

section \<open>Specification vocabulary\<close>

text \<open>
  De-duplication by a key, in the words of the specification: an entry is kept when no
  earlier entry has its key, and the kept entries stay in input order.
\<close>

definition keep_first :: "('a \<Rightarrow> 'k) \<Rightarrow> 'a list \<Rightarrow> 'a list" where
  "keep_first key xs =
     map (\<lambda>i. xs ! i) (filter (\<lambda>i. key (xs ! i) \<notin> key ` set (take i xs)) [0..<length xs])"


definition trim_row :: "FolderRow \<Rightarrow> FolderRow" where
  "trim_row row = \<lparr>name = py_strip (name row), desc = py_strip (desc row)\<rparr>"

definition sample_config :: "(string \<times> config_file) list" where
  "sample_config =
     [(''/home/u/.config/himalaya/config.toml'',
       Loaded [(''accounts'', TTable [(''Work'', TTable [(''email'', TString ''w@x.org'')]),
                                        (''home'', TTable [(''default'', TBool True)]),
                                        (''WORK '', TTable [])])]),
      (''/home/u/.himalayarc'',
       Loaded [(''accounts'', TTable [(''Home'', TTable []), (''lab'', TTable [])])])]"


section \<open>Envelope parsing\<close>

text \<open>
  The first pattern of \<open>_parse_envelope_rows\<close>, \<open>^\s*(\d+)\s+\<close>, matched at the start
  of the line: the digits of group 1 when it matches. Whitespace and digits are
  disjoint, so the greedy runs are the only candidates.
\<close>

definition match_leading_id :: "string \<Rightarrow> string option" where
  "match_leading_id s =
     (let r = dropWhile py_isspace s;
          ds = takeWhile py_isdigit r;
          rest = dropWhile py_isdigit r
      in if ds \<noteq> [] \<and> (case rest of [] \<Rightarrow> False | c # _ \<Rightarrow> py_isspace c) then Some ds
         else None)"

text \<open>The character class \<open>[|\u2502]\<close>: U+2502 is the bytes E2 94 82 in UTF-8.\<close>

definition box_bar :: string where
  "box_bar = [CHR 0xE2, CHR 0x94, CHR 0x82]"

definition drop_bar :: "string \<Rightarrow> string option" where
  "drop_bar s =
     (if prefix ''|'' s then Some (drop 1 s)
      else if prefix box_bar s then Some (drop 3 s)
      else None)"

text \<open>The second pattern, \<open>^\s*[|\u2502]\s*(\d+)\s*[|\u2502]\<close>.\<close>

definition match_cell_id :: "string \<Rightarrow> string option" where
  "match_cell_id s =
     (case drop_bar (dropWhile py_isspace s) of
        None \<Rightarrow> None
      | Some r \<Rightarrow>
          let r' = dropWhile py_isspace r;
              ds = takeWhile py_isdigit r';
              rest = dropWhile py_isspace (dropWhile py_isdigit r')
          in if ds \<noteq> [] \<and> drop_bar rest \<noteq> None then Some ds else None)"

text \<open>The loop over the two patterns: \<open>found\<close>.\<close>

definition find_id :: "string \<Rightarrow> int option" where
  "find_id clean =
     (case match_leading_id clean of
        Some ds \<Rightarrow> Some (py_int ds)
      | None \<Rightarrow> (case match_cell_id clean of
                   Some ds \<Rightarrow> Some (py_int ds)
                 | None \<Rightarrow> None))"

definition envelope_step :: "string \<Rightarrow> EnvelopeRow list \<Rightarrow> EnvelopeRow list" where
  "envelope_step line rows =
     (let clean = py_rstrip line in
      if clean = [] then rows
      else (case find_id clean of
              None \<Rightarrow> rows
            | Some found \<Rightarrow> rows @ [\<lparr>env_id = found, env_line = clean\<rparr>]))"

definition parse_envelope_rows :: "string \<Rightarrow> EnvelopeRow list" where
  "parse_envelope_rows raw = fold envelope_step (py_splitlines raw) []"




section \<open>Application state\<close>

text \<open>
  The fields of \<open>TuiMailApp\<close> that the modelled handlers read or write, with the client
  it owns, and the number of subprocesses spawned so far. The mode is the string the
  source stores. The screen, the logger, the folder page and the help overlay are left
  out: the handlers below do not depend on them.
\<close>

record app =
  client :: client
  default_sender :: string
  page :: int
  rows :: "EnvelopeRow list"
  cursor :: int
  list_scroll :: int
  mode :: string
  status :: string
  raw_page_text :: string
  message_lines :: "string list"
  message_scroll :: int
  message_title :: string
  current_message_id :: "int option"
  prev_mode_before_compose :: string
  compose_focus :: int
  compose_kind :: string
  compose_reply_all :: bool
  compose_reply_source_id :: "int option"
  compose_to :: string
  compose_subject :: string
  compose_body_lines :: "string list"
  compose_to_cursor :: int
  compose_subject_cursor :: int
  compose_body_row :: int
  compose_body_col :: int
  compose_body_scroll :: int
  spawned :: nat

definition py_len :: "'a list \<Rightarrow> int" where
  "py_len xs = int (length xs)"

section \<open>Loading a page and switching the account\<close>

definition list_envelopes_cmd :: "client \<Rightarrow> int \<Rightarrow> string list" where
  "list_envelopes_cmd c pg =
     [binary c, ''--quiet'', ''envelope'', ''list'', ''--folder'', folder c, ''--page'', py_str pg]
     @ (if page_size c > 0 then [''--page-size'', py_str (page_size c)] else [])
     @ account_args c"

definition list_envelopes ::
  "backend \<Rightarrow> nat \<Rightarrow> client \<Rightarrow> int \<Rightarrow> (error + EnvelopeRow list \<times> string) \<times> nat" where
  "list_envelopes be n c pg =
     (case run be n (list_envelopes_cmd c pg) of
        (Inl e, n') \<Rightarrow> (Inl e, n')
      | (Inr out, n') \<Rightarrow> (Inr (parse_envelope_rows out, out), n'))"

text \<open>\<open>_load_page\<close>: the new state and the returned flag.\<close>

definition load_page :: "backend \<Rightarrow> app \<Rightarrow> bool \<Rightarrow> string \<Rightarrow> app \<times> bool" where
  "load_page be s0 reset_cursor loading_msg =
     (let s = s0\<lparr>status := loading_msg\<rparr> in
      case list_envelopes be (spawned s) (client s) (page s) of
        (Inl (HimalayaError err), n') \<Rightarrow>
          (s\<lparr>status := ''Error loading page '' @ py_str (page s) @ '': '' @ err,
             page := (if page s > 1 then page s - 1 else page s),
             spawned := n'\<rparr>, False)
      | (Inr (new_rows, raw), n') \<Rightarrow>
          (let s1 = s\<lparr>rows := new_rows, raw_page_text := raw, spawned := n'\<rparr>;
               s2 = (if reset_cursor then s1\<lparr>cursor := 0, list_scroll := 0\<rparr>
                     else if cursor s1 \<ge> py_len new_rows
                     then s1\<lparr>cursor := max 0 (py_len new_rows - 1)\<rparr>
                     else s1)
           in (s2\<lparr>status :=
                    (if new_rows = [] then ''No messages on page '' @ py_str (page s2) @ ''.''
                     else ''Page '' @ py_str (page s2) @ '' loaded (''
                          @ py_str (py_len new_rows) @ '' messages, page-size=''
                          @ py_str (page_size (client s2)) @ '').'')\<rparr>, True)))"

text \<open>
  \<open>_switch_account\<close>. The account list comes from \<open>list_accounts_from_config\<close> on the
  candidate files; \<open>choice\<close> is what the account dialog returns (\<open>None\<close> when it is
  cancelled); \<open>resolve\<close> stands for \<open>resolve_default_sender_from_config\<close> on the
  configuration at hand.
\<close>

definition clear_message_view :: "app \<Rightarrow> app" where
  "clear_message_view s =
     s\<lparr>mode := ''list'', current_message_id := None, message_lines := [],
       message_scroll := 0, message_title := ''''\<rparr>"

definition switch_done_status :: "string \<Rightarrow> string \<Rightarrow> string \<Rightarrow> string" where
  "switch_done_status target default_account sender_note =
     (if target \<noteq> []
      then ''Account changed to '' @ target @ ''. Folder reset to INBOX. Sender '' @ sender_note @ ''.''
      else if default_account \<noteq> []
      then ''Account changed to default ('' @ default_account @ ''). Folder reset to INBOX. ''
           @ ''Sender '' @ sender_note @ ''.''
      else ''Account changed to default. Folder reset to INBOX. Sender '' @ sender_note @ ''.'')"

definition switch_account ::
  "backend \<Rightarrow> (string \<Rightarrow> string \<times> string \<times> string) \<Rightarrow> (string \<times> config_file) list
   \<Rightarrow> string option \<Rightarrow> app \<Rightarrow> app" where
  "switch_account be resolve candidates choice s =
     (case list_accounts_from_config candidates of (accounts, default_account, source_path) \<Rightarrow>
      if accounts = [] then s\<lparr>status := ''No accounts found in Himalaya config.''\<rparr>
      else (case choice of
        None \<Rightarrow> s\<lparr>status := ''Account switch canceled.''\<rparr>
      | Some target \<Rightarrow>
          let old_account = account (client s);
              old_folder = folder (client s);
              old_page = page s;
              old_sender = default_sender s;
              s1 = clear_message_view
                     (s\<lparr>client := (client s)\<lparr>account := target, folder := ''INBOX''\<rparr>, page := 1\<rparr>);
              auto_sender = fst (resolve target);
              s2 = (if auto_sender \<noteq> [] then s1\<lparr>default_sender := auto_sender\<rparr> else s1);
              selected_label = py_or target ''(default)''
          in (case load_page be s2 True (''Switching account to '' @ selected_label @ ''...'') of
                (s3, True) \<Rightarrow>
                  s3\<lparr>status := switch_done_status target default_account
                                  (if auto_sender \<noteq> [] then ''auto-updated'' else ''unchanged'')\<rparr>
              | (s3, False) \<Rightarrow>
                  let s4 = clear_message_view
                             (s3\<lparr>client := (client s3)\<lparr>account := old_account, folder := old_folder\<rparr>,
                                 page := old_page, default_sender := old_sender\<rparr>)
                  in (fst (load_page be s4 True ''Restoring previous account...''))
                       \<lparr>status := ''Could not switch to account '' @ [CHR 0x27] @ selected_label
                                   @ [CHR 0x27] @ ''. Previous account restored.''\<rparr>)))"

text \<open>Sample inputs.\<close>

definition initial_app :: "client \<Rightarrow> string \<Rightarrow> app" where
  "initial_app c sender =
     \<lparr>client = c, default_sender = sender, page = 1, rows = [], cursor = 0, list_scroll = 0,
      mode = ''list'', status = '''', raw_page_text = '''', message_lines = [],
      message_scroll = 0, message_title = '''', current_message_id = None,
      prev_mode_before_compose = ''list'', compose_focus = 0, compose_kind = ''new'',
      compose_reply_all = False, compose_reply_source_id = None, compose_to = '''',
      compose_subject = '''', compose_body_lines = [''''], compose_to_cursor = 0,
      compose_subject_cursor = 0, compose_body_row = 0, compose_body_col = 0,
      compose_body_scroll = 0, spawned = 0\<rparr>"

definition work_app :: app where
  "work_app =
     (initial_app (sample_client\<lparr>account := ''Work'', folder := ''Archive''\<rparr>) ''w@x.org'')
       \<lparr>page := 3\<rparr>"

definition no_sender_resolve :: "string \<Rightarrow> string \<times> string \<times> string" where
  "no_sender_resolve requested_account = ('''', '''', '''')"

definition home_resolve :: "string \<Rightarrow> string \<times> string \<times> string" where
  "home_resolve requested_account =
     (''h@x.org'', requested_account, ''/home/u/.config/himalaya/config.toml'')"

definition ok_backend :: backend where
  "ok_backend n cmd inp = \<lparr>returncode = 0, stdout = ''  42  Subject text'', stderr = ''''\<rparr>"

definition home_down_backend :: backend where
  "home_down_backend n cmd inp =
     (if ''home'' \<in> set cmd then \<lparr>returncode = 1, stdout = '''', stderr = ''connection refused''\<rparr>
      else \<lparr>returncode = 0, stdout = ''  42  Subject text'', stderr = ''''\<rparr>)"

section \<open>Reply composition\<close>

text \<open>
  The header dictionary of a message: an association list in insertion order, with the
  dictionary operations the code uses.
\<close>

type_synonym headers = "(string \<times> string) list"

definition dict_get :: "headers \<Rightarrow> string \<Rightarrow> string \<Rightarrow> string" where
  "dict_get h k d = (case map_of h k of None \<Rightarrow> d | Some v \<Rightarrow> v)"

fun dict_set :: "string \<Rightarrow> string \<Rightarrow> headers \<Rightarrow> headers" where
  "dict_set k v [] = [(k, v)]"
| "dict_set k v ((k', v') # h) = (if k = k' then (k, v) # h else (k', v') # dict_set k v h)"

text \<open>\<open>raw.rstrip("\n")\<close> and \<open>line.split(":", 1)\<close> for a line that holds a colon.\<close>

definition rstrip_newline :: "string \<Rightarrow> string" where
  "rstrip_newline raw = rev (dropWhile (\<lambda>c. c = CHR 0x0A) (rev raw))"

definition split_colon :: "string \<Rightarrow> string \<times> string" where
  "split_colon line =
     (takeWhile (\<lambda>c. c \<noteq> CHR '':'') line, drop 1 (dropWhile (\<lambda>c. c \<noteq> CHR '':'') line))"

text \<open>
  The loop of \<open>_split_headers_and_body_from_message\<close> at index \<open>i\<close>, with the lines
  still to visit; the value is what the function returns.
\<close>

fun split_headers_loop ::
  "string list \<Rightarrow> nat \<Rightarrow> headers \<Rightarrow> string \<Rightarrow> string list \<Rightarrow> headers \<times> string list" where
  "split_headers_loop lines i hs current_key [] =
     (hs, drop (if hs \<noteq> [] then length lines else 0) lines)"
| "split_headers_loop lines i hs current_key (raw # rest) =
     (let line = rstrip_newline raw in
      if py_strip line = [] then (hs, drop (i + 1) lines)
      else if (py_startswith line '' '' \<or> py_startswith line [CHR 0x09]) \<and> current_key \<noteq> []
      then split_headers_loop lines (i + 1)
             (dict_set current_key
                (py_strip (dict_get hs current_key [] @ '' '' @ py_strip line)) hs)
             current_key rest
      else if \<not> py_in '':'' line
      then (if hs = [] then ([], lines) else split_headers_loop lines (i + 1) hs current_key rest)
      else (case split_colon line of (k, v) \<Rightarrow>
              let key = py_lower (py_strip k) in
              if key = [] then split_headers_loop lines (i + 1) hs current_key rest
              else split_headers_loop lines (i + 1) (dict_set key (py_strip v) hs) key rest))"

definition split_headers_and_body_from_message :: "string list \<Rightarrow> headers \<times> string list" where
  "split_headers_and_body_from_message lines = split_headers_loop lines 0 [] [] lines"

definition build_reply_prefilled_body :: "string list \<Rightarrow> string list" where
  "build_reply_prefilled_body body_lines =
     (let cleaned = dropWhile (\<lambda>l. py_strip l = []) (map py_rstrip body_lines);
          snippet = take 5 cleaned
      in if snippet = [] then ['''']
         else ['''', '''', ''----- Original message snippet (max 5 lines) -----'']
              @ map (\<lambda>line. if line \<noteq> [] then ''> '' @ truncate_str line 160 else ''>'') snippet
              @ (if length cleaned > 5 then [''> ...''] else []))"

text \<open>The subject that \<open>_open_reply_compose_page\<close> computes from the headers.\<close>

definition reply_subject :: "headers \<Rightarrow> string" where
  "reply_subject hs =
     (let subject = py_strip (dict_get hs ''subject'' []) in
      if subject \<noteq> [] \<and> \<not> py_startswith (py_lower subject) ''re:'' then ''Re: '' @ subject
      else if subject = [] then ''Re:''
      else subject)"

definition open_compose_page ::
  "app \<Rightarrow> string \<Rightarrow> string \<Rightarrow> string \<Rightarrow> string list option \<Rightarrow> int option \<Rightarrow> bool \<Rightarrow> app" where
  "open_compose_page s kind to subject body_lines reply_source_id reply_all =
     s\<lparr>prev_mode_before_compose :=
         (if mode s \<noteq> ''compose'' then mode s else prev_mode_before_compose s),
       mode := ''compose'',
       compose_kind := kind,
       compose_reply_source_id := reply_source_id,
       compose_reply_all := reply_all,
       compose_focus := (if kind = ''reply'' then 2 else 0),
       compose_to := to,
       compose_subject := subject,
       compose_body_lines :=
         (case body_lines of None \<Rightarrow> [''''] | Some b \<Rightarrow> if b \<noteq> [] then b else ['''']),
       compose_to_cursor := py_len to,
       compose_subject_cursor := py_len subject,
       compose_body_row := 0,
       compose_body_col := 0,
       compose_body_scroll := 0,
       status :=
         (if kind = ''reply''
          then ''Composing reply. Start typing at the top of the body; ''
               @ ''Tab moves between fields; Ctrl+S/F5 sends; Esc cancels.''
          else ''Composing new email. Tab moves between fields; Ctrl+S/F5 sends; Esc cancels.'')\<rparr>"

text \<open>
  \<open>_open_reply_compose_page\<close>. The recipient line comes from \<open>_build_reply_to\<close>, which
  is a parameter here: the subject does not depend on it.
\<close>

definition open_reply_compose_page ::
  "(app \<Rightarrow> headers \<Rightarrow> bool \<Rightarrow> string) \<Rightarrow> app \<Rightarrow> bool \<Rightarrow> app" where
  "open_reply_compose_page build_reply_to s reply_all =
     (case current_message_id s of
        None \<Rightarrow> s\<lparr>status := ''No open email available for reply.''\<rparr>
      | Some message_id \<Rightarrow>
          (case split_headers_and_body_from_message (message_lines s) of (hs, body_lines) \<Rightarrow>
             open_compose_page s ''reply'' (build_reply_to s hs reply_all) (reply_subject hs)
               (Some (build_reply_prefilled_body body_lines)) (Some message_id) reply_all))"

text \<open>The subject header of the opened message, as the reply reads it.\<close>

definition original_subject :: "app \<Rightarrow> string" where
  "original_subject s =
     py_strip (dict_get (fst (split_headers_and_body_from_message (message_lines s))) ''subject'' [])"

definition reply_to_sender :: "app \<Rightarrow> headers \<Rightarrow> bool \<Rightarrow> string" where
  "reply_to_sender s hs reply_all =
     py_strip (py_or (dict_get hs ''reply-to'' []) (py_or (dict_get hs ''from'' []) []))"

definition opened_message :: "string \<Rightarrow> app" where
  "opened_message subject_line =
     (initial_app sample_client ''w@x.org'')
       \<lparr>mode := ''message'', current_message_id := Some 7,
        message_lines := [''From: Ann <ann@x.org>'', subject_line, ''To: w@x.org'', '''',
                          ''Hi,'', ''see you at five.'']\<rparr>"

section \<open>Editing the compose body\<close>

text \<open>
  Python list operations on an integer index. A negative index counts from the end;
  reading, writing or deleting out of range raises \<open>IndexError\<close>, which is \<open>None\<close>
  here; slices and \<open>insert\<close> clamp instead.
\<close>

definition norm_index :: "'a list \<Rightarrow> int \<Rightarrow> int" where
  "norm_index xs i = (if i < 0 then py_len xs + i else i)"

definition list_get :: "'a list \<Rightarrow> int \<Rightarrow> 'a option" where
  "list_get xs i =
     (let j = norm_index xs i in if 0 \<le> j \<and> j < py_len xs then Some (xs ! nat j) else None)"

definition list_set :: "'a list \<Rightarrow> int \<Rightarrow> 'a \<Rightarrow> 'a list option" where
  "list_set xs i v =
     (let j = norm_index xs i in if 0 \<le> j \<and> j < py_len xs then Some (xs[nat j := v]) else None)"

definition list_del :: "'a list \<Rightarrow> int \<Rightarrow> 'a list option" where
  "list_del xs i =
     (let j = norm_index xs i in
      if 0 \<le> j \<and> j < py_len xs then Some (take (nat j) xs @ drop (Suc (nat j)) xs) else None)"

definition clamp_index :: "'a list \<Rightarrow> int \<Rightarrow> nat" where
  "clamp_index xs i = nat (min (py_len xs) (max 0 (norm_index xs i)))"

definition list_insert :: "'a list \<Rightarrow> int \<Rightarrow> 'a \<Rightarrow> 'a list" where
  "list_insert xs i v = take (clamp_index xs i) xs @ [v] @ drop (clamp_index xs i) xs"

definition slice_to :: "'a list \<Rightarrow> int \<Rightarrow> 'a list" where
  "slice_to xs i = take (clamp_index xs i) xs"

definition slice_from :: "'a list \<Rightarrow> int \<Rightarrow> 'a list" where
  "slice_from xs i = drop (clamp_index xs i) xs"

text \<open>The key codes of the \<open>curses\<close> module (ncurses).\<close>

definition KEY_DOWN :: int where "KEY_DOWN = 258"
definition KEY_UP :: int where "KEY_UP = 259"
definition KEY_LEFT :: int where "KEY_LEFT = 260"
definition KEY_RIGHT :: int where "KEY_RIGHT = 261"
definition KEY_HOME :: int where "KEY_HOME = 262"
definition KEY_BACKSPACE :: int where "KEY_BACKSPACE = 263"
definition KEY_DC :: int where "KEY_DC = 330"
definition KEY_NPAGE :: int where "KEY_NPAGE = 338"
definition KEY_PPAGE :: int where "KEY_PPAGE = 339"
definition KEY_ENTER :: int where "KEY_ENTER = 343"
definition KEY_END :: int where "KEY_END = 360"

definition ensure_compose_body_valid :: "app \<Rightarrow> app option" where
  "ensure_compose_body_valid s =
     (let lines = (if compose_body_lines s = [] then [''''] else compose_body_lines s);
          row = max 0 (min (compose_body_row s) (py_len lines - 1))
      in do {
        line \<leftarrow> list_get lines row;
        Some (s\<lparr>compose_body_lines := lines, compose_body_row := row,
                compose_body_col := max 0 (min (compose_body_col s) (py_len line))\<rparr>)
      })"

text \<open>
  The key dispatch of \<open>_edit_body\<close> on the local \<open>row\<close>, \<open>col\<close>, \<open>line\<close> and the
  body lines: the lines, row and column after the key.
\<close>

definition edit_body_key ::
  "string list \<Rightarrow> int \<Rightarrow> int \<Rightarrow> string \<Rightarrow> int \<Rightarrow> (string list \<times> int \<times> int) option" where
  "edit_body_key lines row col line ch =
     (if ch = KEY_UP then
        (if row > 0 then do { l \<leftarrow> list_get lines (row - 1); Some (lines, row - 1, min col (py_len l)) }
         else Some (lines, row, col))
      else if ch = KEY_DOWN then
        (if row + 1 < py_len lines
         then do { l \<leftarrow> list_get lines (row + 1); Some (lines, row + 1, min col (py_len l)) }
         else Some (lines, row, col))
      else if ch = KEY_LEFT then
        (if col > 0 then Some (lines, row, col - 1)
         else if row > 0 then do { l \<leftarrow> list_get lines (row - 1); Some (lines, row - 1, py_len l) }
         else Some (lines, row, col))
      else if ch = KEY_RIGHT then
        (if col < py_len line then Some (lines, row, col + 1)
         else if row + 1 < py_len lines then Some (lines, row + 1, 0)
         else Some (lines, row, col))
      else if ch = KEY_HOME then Some (lines, row, 0)
      else if ch = KEY_END then Some (lines, row, py_len line)
      else if ch = KEY_BACKSPACE \<or> ch = 127 \<or> ch = 8 then
        (if col > 0
         then do {
           lines1 \<leftarrow> list_set lines row (slice_to line (col - 1) @ slice_from line col);
           Some (lines1, row, col - 1) }
         else if row > 0
         then do {
           prev \<leftarrow> list_get lines (row - 1);
           lines1 \<leftarrow> list_set lines (row - 1) (prev @ line);
           lines2 \<leftarrow> list_del lines1 row;
           Some (lines2, row - 1, py_len prev) }
         else Some (lines, row, col))
      else if ch = KEY_DC then
        (if col < py_len line
         then do {
           lines1 \<leftarrow> list_set lines row (slice_to line col @ slice_from line (col + 1));
           Some (lines1, row, col) }
         else if row + 1 < py_len lines
         then do {
           nxt \<leftarrow> list_get lines (row + 1);
           lines1 \<leftarrow> list_set lines row (line @ nxt);
           lines2 \<leftarrow> list_del lines1 (row + 1);
           Some (lines2, row, col) }
         else Some (lines, row, col))
      else if ch = KEY_ENTER \<or> ch = 10 \<or> ch = 13 then
        do {
          lines1 \<leftarrow> list_set lines row (slice_to line col);
          Some (list_insert lines1 (row + 1) (slice_from line col), row + 1, 0) }
      else if ch = KEY_NPAGE then
        (let row1 = min (py_len lines - 1) (row + 10) in
         do { l \<leftarrow> list_get lines row1; Some (lines, row1, min col (py_len l)) })
      else if ch = KEY_PPAGE then
        (let row1 = max 0 (row - 10) in
         do { l \<leftarrow> list_get lines row1; Some (lines, row1, min col (py_len l)) })
      else if 32 \<le> ch \<and> ch \<le> 126 then
        do {
          lines1 \<leftarrow> list_set lines row (slice_to line col @ [char_of (nat ch)] @ slice_from line col);
          Some (lines1, row, col + 1) }
      else Some (lines, row, col))"

definition edit_body :: "app \<Rightarrow> int \<Rightarrow> app option" where
  "edit_body s0 ch =
     do {
       s \<leftarrow> ensure_compose_body_valid s0;
       line \<leftarrow> list_get (compose_body_lines s) (compose_body_row s);
       (lines1, row1, col1) \<leftarrow>
         edit_body_key (compose_body_lines s) (compose_body_row s)
           (max 0 (min (compose_body_col s) (py_len line))) line ch;
       let row2 = max 0 (min row1 (py_len lines1 - 1));
       line2 \<leftarrow> list_get lines1 row2;
       Some (s\<lparr>compose_body_lines := lines1, compose_body_row := row2,
               compose_body_col := max 0 (min col1 (py_len line2))\<rparr>)
     }"

text \<open>The compose-body invariant.\<close>

definition compose_body_valid :: "app \<Rightarrow> bool" where
  "compose_body_valid s \<longleftrightarrow>
     compose_body_lines s \<noteq> []
     \<and> 0 \<le> compose_body_row s \<and> compose_body_row s < py_len (compose_body_lines s)
     \<and> 0 \<le> compose_body_col s
     \<and> compose_body_col s \<le> py_len (compose_body_lines s ! nat (compose_body_row s))"

definition stray_cursor_app :: app where
  "stray_cursor_app =
     (initial_app sample_client '''')
       \<lparr>mode := ''compose'', compose_focus := 2, compose_body_lines := [''ab'', ''c''],
        compose_body_row := 7, compose_body_col := - 3\<rparr>"

text \<open>A key handler returns, and leaves at least one body line.\<close>

definition keeps_lines :: "(string list \<times> int \<times> int) option \<Rightarrow> bool" where
  "keeps_lines r \<longleftrightarrow> (\<exists>lines1 row1 col1. r = Some (lines1, row1, col1) \<and> lines1 \<noteq> [])"

section \<open>Properties of the string primitives\<close>

lemma py_in_iff: "py_in needle hay \<longleftrightarrow> (\<exists>p s. hay = p @ needle @ s)"
proof (induction hay)
  case Nil
  then show ?case by auto
next
  case (Cons c cs)
  show ?case
  proof
    assume "py_in needle (c # cs)"
    then consider "prefix needle (c # cs)" | "py_in needle cs" by auto
    then show "\<exists>p s. c # cs = p @ needle @ s"
    proof cases
      case 1
      then obtain s where "c # cs = needle @ s" by (auto simp: prefix_def)
      then have "c # cs = [] @ needle @ s" by simp
      then show ?thesis by blast
    next
      case 2
      with Cons obtain p s where "cs = p @ needle @ s" by auto
      then have "c # cs = (c # p) @ needle @ s" by simp
      then show ?thesis by blast
    qed
  next
    assume "\<exists>p s. c # cs = p @ needle @ s"
    then obtain p s where e: "c # cs = p @ needle @ s" by auto
    show "py_in needle (c # cs)"
    proof (cases p)
      case Nil
      with e have "prefix needle (c # cs)" by (auto simp: prefix_def)
      then show ?thesis by simp
    next
      case (Cons a p')
      with e have "cs = p' @ needle @ s" by simp
      with Cons.IH have "py_in needle cs" by blast
      then show ?thesis by simp
    qed
  qed
qed

lemma py_strip_ends:
  "py_strip s = [] \<or> (\<not> py_isspace (hd (py_strip s)) \<and> \<not> py_isspace (last (py_strip s)))"
proof -
  let ?u = "rev (dropWhile py_isspace (rev s))"
  let ?t = "dropWhile py_isspace ?u"
  have t: "py_strip s = ?t" by (simp add: py_strip_def py_lstrip_def py_rstrip_def)
  show ?thesis
  proof (cases "?t = []")
    case True
    then show ?thesis using t by simp
  next
    case False
    then have hd: "\<not> py_isspace (hd ?t)" by (rule hd_dropWhile)
    from False have une: "?u \<noteq> []" by (metis dropWhile.simps(1))
    then have "dropWhile py_isspace (rev s) \<noteq> []" by simp
    then have "\<not> py_isspace (hd (dropWhile py_isspace (rev s)))" by (rule hd_dropWhile)
    then have lu: "\<not> py_isspace (last ?u)" using une by (simp add: last_rev)
    have "?u = takeWhile py_isspace ?u @ ?t" by simp
    then have "last ?u = last ?t" using False by (metis last_appendR)
    with lu hd t show ?thesis by simp
  qed
qed

lemma py_strip_fixed:
  assumes "t = [] \<or> (\<not> py_isspace (hd t) \<and> \<not> py_isspace (last t))"
  shows "py_strip t = t"
proof (cases "t = []")
  case True
  then show ?thesis by (simp add: py_strip_def py_lstrip_def py_rstrip_def)
next
  case False
  with assms have h: "\<not> py_isspace (hd t)" and l: "\<not> py_isspace (last t)" by auto
  from False l have "dropWhile py_isspace (rev t) = rev t"
    by (cases "rev t") (auto simp: last_rev hd_rev)
  moreover from False h have "dropWhile py_isspace t = t" by (cases t) auto
  ultimately show ?thesis by (simp add: py_strip_def py_lstrip_def py_rstrip_def)
qed

lemma py_strip_idem: "py_strip (py_strip s) = py_strip s"
  by (rule py_strip_fixed) (rule py_strip_ends)

section \<open>Properties of the command adapter\<close>

lemma sanitize_output_stripped: "py_strip (sanitize_output s) = sanitize_output s"
  by (simp add: sanitize_output_def py_strip_idem) (simp add: py_strip_def py_lstrip_def py_rstrip_def)

lemma failure_text_eq:
  "failure_text cmd (sanitize_output out) (sanitize_output err) =
     (if sanitize_output err \<noteq> [] then sanitize_output err
      else if sanitize_output out \<noteq> [] then sanitize_output out
      else ''Command failed: '' @ py_join '' '' cmd)"
  by (simp add: failure_text_def py_or_def sanitize_output_stripped Let_def)



text \<open>
  C2. A command that exits non-zero, does not trigger the quiet-flag re-run, and whose
  sanitized output (stdout, a newline, stderr) contains "successfully" in any letter case
  returns the sanitized stdout as a success. This holds for \<open>_run\<close> and for
  \<open>_run_with_stdin\<close> (send).
\<close>

theorem soft_success_returns_stdout:
  "(returncode (be n cmd None) \<noteq> 0
      \<and> \<not> (''--quiet'' \<in> set cmd
             \<and> is_quiet_unsupported (sanitize_output (stdout (be n cmd None)))
                  (sanitize_output (stderr (be n cmd None))))
      \<and> py_in ''successfully''
           (py_lower (sanitize_output (stdout (be n cmd None)) @ [CHR 0x0A]
                      @ sanitize_output (stderr (be n cmd None))))
    \<longrightarrow> run be n cmd = (Inr (sanitize_output (stdout (be n cmd None))), Suc n))
   \<and> (returncode (be n cmd (Some raw_input)) \<noteq> 0
      \<and> \<not> (''--quiet'' \<in> set cmd
             \<and> is_quiet_unsupported (sanitize_output (stdout (be n cmd (Some raw_input))))
                  (sanitize_output (stderr (be n cmd (Some raw_input)))))
      \<and> py_in ''successfully''
           (py_lower (sanitize_output (stdout (be n cmd (Some raw_input))) @ [CHR 0x0A]
                      @ sanitize_output (stderr (be n cmd (Some raw_input)))))
    \<longrightarrow> run_with_stdin be n cmd raw_input
          = (Inr (sanitize_output (stdout (be n cmd (Some raw_input)))), Suc n))"
proof (intro conjI impI)
  assume "returncode (be n cmd None) \<noteq> 0
      \<and> \<not> (''--quiet'' \<in> set cmd
             \<and> is_quiet_unsupported (sanitize_output (stdout (be n cmd None)))
                  (sanitize_output (stderr (be n cmd None))))
      \<and> py_in ''successfully''
           (py_lower (sanitize_output (stdout (be n cmd None)) @ [CHR 0x0A]
                      @ sanitize_output (stderr (be n cmd None))))"
  then show "run be n cmd = (Inr (sanitize_output (stdout (be n cmd None))), Suc n)"
    by (subst run.simps) (auto simp add: Let_def is_soft_success_def combined_lower_def)
next
  let ?p = "be n cmd (Some raw_input)"
  assume "returncode ?p \<noteq> 0
      \<and> \<not> (''--quiet'' \<in> set cmd
             \<and> is_quiet_unsupported (sanitize_output (stdout ?p)) (sanitize_output (stderr ?p)))
      \<and> py_in ''successfully''
           (py_lower (sanitize_output (stdout ?p) @ [CHR 0x0A] @ sanitize_output (stderr ?p)))"
  then show "run_with_stdin be n cmd raw_input = (Inr (sanitize_output (stdout ?p)), Suc n)"
    by (subst run_with_stdin.simps) (auto simp add: Let_def is_soft_success_def combined_lower_def)
qed

lemma soft_backend_clean:
  "sanitize_output ''Message successfully sent!'' = ''Message successfully sent!''"
  "sanitize_output '''' = ''''"
  by code_simp+

lemma soft_backend_facts:
  "\<not> is_quiet_unsupported ''Message successfully sent!'' ''''"
  "py_in ''successfully'' (py_lower (''Message successfully sent!'' @ [CHR 0x0A] @ ''''))"
  by code_simp+

theorem soft_success_returns_stdout_witness:
  "run soft_backend 0 [''himalaya'', ''--quiet'', ''message'', ''send'']
     = (Inr ''Message successfully sent!'', 1)
   \<and> run_with_stdin soft_backend 0 [''himalaya'', ''--quiet'', ''message'', ''send''] ''To: a@b.c''
     = (Inr ''Message successfully sent!'', 1)"
  using soft_success_returns_stdout
          [of soft_backend 0 "[''himalaya'', ''--quiet'', ''message'', ''send'']" "''To: a@b.c''"]
        soft_backend_facts
  by (simp add: soft_backend_def soft_backend_clean)

text \<open>
  C3. When the initial delete command of \<open>delete_message\<close> fails with an error whose
  text, in lower case, contains "no folder trash", or contains both "trash" and
  "cannot move imap message", the message is deleted by one further \<open>_run\<close> of the
  flag-add "deleted" command, whose result is returned; when that fallback fails too,
  one error is raised that reports the missing Trash folder and carries the text of the
  fallback's error. Any other failure of the delete command is raised as it is.
\<close>

theorem delete_message_trash_fallback:
  assumes "run be n ([binary c, ''--quiet'', ''message'', ''delete'', ''--folder'', folder c,
                      py_str envelope_id] @ account_args c)
           = (Inl (HimalayaError raw_err), n')"
  shows "(py_in ''no folder trash'' (py_lower raw_err)
            \<or> (py_in ''trash'' (py_lower raw_err)
                \<and> py_in ''cannot move imap message'' (py_lower raw_err))
          \<longrightarrow> delete_message be n c envelope_id
              = (case run be n' ([binary c, ''--quiet'', ''flag'', ''add'', ''--folder'', folder c,
                                  py_str envelope_id, ''deleted''] @ account_args c) of
                   (Inr out, n'') \<Rightarrow> (Inr out, n'')
                 | (Inl (HimalayaError fallback_err), n'') \<Rightarrow>
                     (Inl (HimalayaError
                        (''Failed to delete email: Trash folder is missing and deleted-flag ''
                         @ ''fallback also failed. Error: '' @ fallback_err)), n'')))
       \<and> (\<not> (py_in ''no folder trash'' (py_lower raw_err)
               \<or> (py_in ''trash'' (py_lower raw_err)
                   \<and> py_in ''cannot move imap message'' (py_lower raw_err)))
          \<longrightarrow> delete_message be n c envelope_id = (Inl (HimalayaError raw_err), n'))"
  using assms
  unfolding delete_message_def delete_cmd_def delete_fallback_cmd_def
    is_missing_trash_error_def fallback_failed_text_def Let_def
  by simp

lemma trash_backend_delete:
  "run trash_backend 0 [''himalaya'', ''--quiet'', ''message'', ''delete'', ''--folder'', ''INBOX'', ''7'']
     = (Inl (HimalayaError ''Error: no folder Trash''), 1)"
  "run trash_backend 1 [''himalaya'', ''--quiet'', ''flag'', ''add'', ''--folder'', ''INBOX'', ''7'', ''deleted'']
     = (Inr ''Flag(s) deleted successfully added!'', 2)"
  "py_str 7 = ''7''"
  "py_in ''no folder trash'' (py_lower ''Error: no folder Trash'')"
  by code_simp+

theorem delete_message_trash_fallback_witness:
  "delete_message trash_backend 0 sample_client 7 = (Inr ''Flag(s) deleted successfully added!'', 2)"
  using delete_message_trash_fallback
          [of trash_backend 0 sample_client 7 "''Error: no folder Trash''" 1]
        trash_backend_delete
  by (simp add: sample_client_def account_args_def)

text \<open>
  C4 (amended). A command that exits non-zero and matches none of the reclassification
  cases (quiet-flag re-run, soft success and, for send, copy failure) fails with an error
  whose message is the whole sanitized stderr, or the whole sanitized stdout when the
  sanitized stderr is empty; the message is not truncated. When both are empty the
  message is "Command failed: " followed by the command's arguments joined by spaces.
\<close>

theorem hard_failure_message:
  "(returncode (be n cmd None) \<noteq> 0
      \<and> \<not> (''--quiet'' \<in> set cmd
             \<and> is_quiet_unsupported (sanitize_output (stdout (be n cmd None)))
                  (sanitize_output (stderr (be n cmd None))))
      \<and> \<not> is_soft_success (sanitize_output (stdout (be n cmd None)))
             (sanitize_output (stderr (be n cmd None)))
    \<longrightarrow> run be n cmd
        = (Inl (HimalayaError
             (if sanitize_output (stderr (be n cmd None)) \<noteq> []
              then sanitize_output (stderr (be n cmd None))
              else if sanitize_output (stdout (be n cmd None)) \<noteq> []
              then sanitize_output (stdout (be n cmd None))
              else ''Command failed: '' @ py_join '' '' cmd)), Suc n))
   \<and> (returncode (be n cmd (Some raw_input)) \<noteq> 0
      \<and> \<not> (''--quiet'' \<in> set cmd
             \<and> is_quiet_unsupported (sanitize_output (stdout (be n cmd (Some raw_input))))
                  (sanitize_output (stderr (be n cmd (Some raw_input)))))
      \<and> \<not> is_soft_success (sanitize_output (stdout (be n cmd (Some raw_input))))
             (sanitize_output (stderr (be n cmd (Some raw_input))))
      \<and> \<not> is_send_copy_failure cmd (sanitize_output (stdout (be n cmd (Some raw_input))))
             (sanitize_output (stderr (be n cmd (Some raw_input))))
    \<longrightarrow> run_with_stdin be n cmd raw_input
        = (Inl (HimalayaError
             (if sanitize_output (stderr (be n cmd (Some raw_input))) \<noteq> []
              then sanitize_output (stderr (be n cmd (Some raw_input)))
              else if sanitize_output (stdout (be n cmd (Some raw_input))) \<noteq> []
              then sanitize_output (stdout (be n cmd (Some raw_input)))
              else ''Command failed: '' @ py_join '' '' cmd)), Suc n))"
proof (intro conjI impI)
  let ?p = "be n cmd None"
  assume "returncode ?p \<noteq> 0
      \<and> \<not> (''--quiet'' \<in> set cmd
             \<and> is_quiet_unsupported (sanitize_output (stdout ?p)) (sanitize_output (stderr ?p)))
      \<and> \<not> is_soft_success (sanitize_output (stdout ?p)) (sanitize_output (stderr ?p))"
  then have "run be n cmd
      = (Inl (HimalayaError
           (failure_text cmd (sanitize_output (stdout ?p)) (sanitize_output (stderr ?p)))), Suc n)"
    by (subst run.simps) (auto simp add: Let_def)
  then show "run be n cmd
        = (Inl (HimalayaError
             (if sanitize_output (stderr ?p) \<noteq> [] then sanitize_output (stderr ?p)
              else if sanitize_output (stdout ?p) \<noteq> [] then sanitize_output (stdout ?p)
              else ''Command failed: '' @ py_join '' '' cmd)), Suc n)"
    by (simp only: failure_text_eq)
next
  let ?p = "be n cmd (Some raw_input)"
  assume "returncode ?p \<noteq> 0
      \<and> \<not> (''--quiet'' \<in> set cmd
             \<and> is_quiet_unsupported (sanitize_output (stdout ?p)) (sanitize_output (stderr ?p)))
      \<and> \<not> is_soft_success (sanitize_output (stdout ?p)) (sanitize_output (stderr ?p))
      \<and> \<not> is_send_copy_failure cmd (sanitize_output (stdout ?p)) (sanitize_output (stderr ?p))"
  then have "run_with_stdin be n cmd raw_input
      = (Inl (HimalayaError
           (failure_text cmd (sanitize_output (stdout ?p)) (sanitize_output (stderr ?p)))), Suc n)"
    by (subst run_with_stdin.simps) (auto simp add: Let_def)
  then show "run_with_stdin be n cmd raw_input
        = (Inl (HimalayaError
             (if sanitize_output (stderr ?p) \<noteq> [] then sanitize_output (stderr ?p)
              else if sanitize_output (stdout ?p) \<noteq> [] then sanitize_output (stdout ?p)
              else ''Command failed: '' @ py_join '' '' cmd)), Suc n)"
    by (simp only: failure_text_eq)
qed

lemma fail_backend_clean:
  "sanitize_output ''connection refused'' = ''connection refused''"
  "sanitize_output '''' = ''''"
  "\<not> is_soft_success '''' ''connection refused''"
  "\<not> is_send_copy_failure [''himalaya'', ''folder'', ''list''] '''' ''connection refused''"
  by code_simp+

theorem hard_failure_message_witness:
  "run fail_backend 0 [''himalaya'', ''folder'', ''list'']
     = (Inl (HimalayaError ''connection refused''), 1)
   \<and> run_with_stdin fail_backend 0 [''himalaya'', ''folder'', ''list''] ''x''
     = (Inl (HimalayaError ''connection refused''), 1)"
  using hard_failure_message [of fail_backend 0 "[''himalaya'', ''folder'', ''list'']" "''x''"]
        fail_backend_clean
  by (simp add: fail_backend_def)

lemma ansi_escape_sub_no_escape: "CHR 0x1B \<notin> set s \<Longrightarrow> ansi_escape_sub s = s"
proof (induction s)
  case Nil
  then show ?case by simp
next
  case (Cons c cs)
  then have "ansi_escape_match (c # cs) = None" by (cases cs) auto
  with Cons show ?case by simp
qed

lemma py_in_set: "py_in needle hay \<Longrightarrow> set needle \<subseteq> set hay"
  by (auto simp: py_in_iff)

lemma long_error_clean:
  "sanitize_output (replicate 500 (CHR ''x'')) = replicate 500 (CHR ''x'')"
proof -
  have "ansi_escape_sub (replicate 500 (CHR ''x'')) = replicate 500 (CHR ''x'')"
    by (rule ansi_escape_sub_no_escape) simp
  moreover have "py_strip (replicate 500 (CHR ''x'')) = replicate 500 (CHR ''x'')"
    by (rule py_strip_fixed) (simp add: py_isspace_def hd_replicate last_replicate)
  ultimately show ?thesis by (simp add: sanitize_output_def)
qed

lemma long_error_not_soft: "\<not> is_soft_success [] (replicate 500 (CHR ''x''))"
proof
  assume "is_soft_success [] (replicate 500 (CHR ''x''))"
  then have "set ''successfully'' \<subseteq> set (py_lower ([CHR 0x0A] @ replicate 500 (CHR ''x'')))"
    unfolding is_soft_success_def combined_lower_def by (intro py_in_set) simp
  then show False by (simp add: py_lower_def lower_char_def)
qed

lemma long_error_run:
  "run long_error_backend 0 [''himalaya'', ''folder'', ''list'']
     = (Inl (HimalayaError (replicate 500 (CHR ''x''))), 1)"
proof -
  have e: "sanitize_output [] = []" by (simp add: sanitize_output_def)
  have f: "failure_text [''himalaya'', ''folder'', ''list''] [] (replicate 500 (CHR ''x''))
           = replicate 500 (CHR ''x'')"
    using failure_text_eq [of "[''himalaya'', ''folder'', ''list'']" "[]" "replicate 500 (CHR ''x'')"]
    by (simp only: e long_error_clean) simp
  show ?thesis
    by (subst run.simps)
       (simp only: long_error_backend_def proc.simps Let_def e long_error_clean f long_error_not_soft,
        simp)
qed

text \<open>
  The claim as stated fails: the backend writes 500 characters to stderr, and the error
  raised by \<open>_run\<close> carries all 500, where \<open>_truncate\<close> would have cut them to 400.
\<close>

theorem hard_failure_message_not_truncated:
  "run long_error_backend 0 [''himalaya'', ''folder'', ''list'']
     = (Inl (HimalayaError (replicate 500 (CHR ''x''))), 1)
   \<and> length (replicate 500 (CHR ''x'')) = 500
   \<and> length (truncate_str (replicate 500 (CHR ''x'')) 400) = 400"
  using long_error_run by (simp add: truncate_str_def)





section \<open>Properties of de-duplication and folder normalization\<close>

lemma keep_first_snoc:
  "keep_first key (ys @ [y]) = keep_first key ys @ (if key y \<in> key ` set ys then [] else [y])"
proof -
  have f: "filter (\<lambda>i. key ((ys @ [y]) ! i) \<notin> key ` set (take i (ys @ [y]))) [0..<length ys]
         = filter (\<lambda>i. key (ys ! i) \<notin> key ` set (take i ys)) [0..<length ys]"
    by (rule filter_cong) (auto simp: nth_append)
  have m: "map (\<lambda>i. (ys @ [y]) ! i) (filter (\<lambda>i. key (ys ! i) \<notin> key ` set (take i ys)) [0..<length ys])
         = map (\<lambda>i. ys ! i) (filter (\<lambda>i. key (ys ! i) \<notin> key ` set (take i ys)) [0..<length ys])"
    by (rule map_cong) (auto simp: nth_append)
  have u: "[0..<length (ys @ [y])] = [0..<length ys] @ [length ys]" by simp
  show ?thesis
    by (simp only: keep_first_def u filter_append map_append f m) simp
qed

lemma keep_first_Nil: "keep_first key [] = []"
  by (simp add: keep_first_def)

lemma set_keep_first_keys: "key ` set (keep_first key xs) = key ` set xs"
  by (induction xs rule: rev_induct) (auto simp: keep_first_snoc keep_first_Nil)

lemma distinct_keep_first: "distinct (map key (keep_first key xs))"
proof (induction xs rule: rev_induct)
  case Nil
  then show ?case by (simp add: keep_first_Nil)
next
  case (snoc x xs)
  have "key x \<notin> key ` set xs \<Longrightarrow> key x \<notin> key ` set (keep_first key xs)"
    by (simp add: set_keep_first_keys)
  with snoc show ?case by (auto simp: keep_first_snoc)
qed

lemma py_lower_Nil_iff: "py_lower s = [] \<longleftrightarrow> s = []"
  by (simp add: py_lower_def)

lemma fold_normalize_step:
  "fold normalize_step rs ({}, [])
   = ((py_lower \<circ> name) ` set (filter (\<lambda>r. name r \<noteq> []) (map trim_row rs)),
      keep_first (py_lower \<circ> name) (filter (\<lambda>r. name r \<noteq> []) (map trim_row rs)))"
proof (induction rs rule: rev_induct)
  case Nil
  then show ?case by (simp add: keep_first_Nil)
next
  case (snoc row rs)
  then show ?case
    by (auto simp: normalize_step_def Let_def keep_first_snoc trim_row_def py_lower_Nil_iff)
qed

lemma unique_folders_keep_first:
  "unique_folders rs
   = keep_first (py_lower \<circ> name) (filter (\<lambda>r. name r \<noteq> []) (map trim_row rs))"
  by (simp add: unique_folders_def fold_normalize_step)




lemma of_char_upper_char:
  "(of_char (upper_char c) :: nat)
   = (if 97 \<le> (of_char c :: nat) \<and> (of_char c :: nat) \<le> 122 then of_char c - 32 else of_char c)"
proof -
  have m: "((of_char c :: nat) - 32) mod 256 = of_char c - 32" if "(of_char c :: nat) \<le> 122"
    using that by (intro mod_less) arith
  show ?thesis by (simp add: upper_char_def Let_def m)
qed

lemma of_char_lower_char:
  "(of_char (lower_char c) :: nat)
   = (if 65 \<le> (of_char c :: nat) \<and> (of_char c :: nat) \<le> 90 then of_char c + 32 else of_char c)"
proof -
  have m: "((of_char c :: nat) + 32) mod 256 = of_char c + 32" if "(of_char c :: nat) \<le> 90"
    using that by (intro mod_less) arith
  show ?thesis by (simp add: lower_char_def Let_def m)
qed

lemma upper_lower_char_iff:
  assumes "65 \<le> (of_char u :: nat)" "(of_char u :: nat) \<le> 90"
    and "(of_char l :: nat) = of_char u + 32"
  shows "upper_char c = u \<longleftrightarrow> lower_char c = l"
proof -
  have "upper_char c = u \<longleftrightarrow> (of_char (upper_char c) :: nat) = of_char u"
    by (simp only: of_char_eq_iff)
  moreover have "lower_char c = l \<longleftrightarrow> (of_char (lower_char c) :: nat) = of_char l"
    by (simp only: of_char_eq_iff)
  ultimately show ?thesis
    using assms by (simp only: of_char_upper_char of_char_lower_char) (auto split: if_splits)
qed

lemma py_upper_inbox_iff: "py_upper s = ''INBOX'' \<longleftrightarrow> py_lower s = ''inbox''"
proof -
  have c: "upper_char a = CHR ''I'' \<longleftrightarrow> lower_char a = CHR ''i''"
    "upper_char a = CHR ''N'' \<longleftrightarrow> lower_char a = CHR ''n''"
    "upper_char a = CHR ''B'' \<longleftrightarrow> lower_char a = CHR ''b''"
    "upper_char a = CHR ''O'' \<longleftrightarrow> lower_char a = CHR ''o''"
    "upper_char a = CHR ''X'' \<longleftrightarrow> lower_char a = CHR ''x''" for a
    by (rule upper_lower_char_iff; simp)+
  show ?thesis
    unfolding py_upper_def py_lower_def
    by (auto simp: map_eq_Cons_conv c)
qed

lemma distinct_normalize_folders: "distinct (map (py_lower \<circ> name) (normalize_folders rs))"
proof (cases "list_ex is_inbox (unique_folders rs)")
  case True
  have "mset (map (py_lower \<circ> name) (sort_key folder_sort_key (unique_folders rs)))
        = mset (map (py_lower \<circ> name) (unique_folders rs))"
    by (simp only: mset_map mset_sort)
  then have "distinct (map (py_lower \<circ> name) (sort_key folder_sort_key (unique_folders rs)))
        \<longleftrightarrow> distinct (map (py_lower \<circ> name) (unique_folders rs))"
    by (rule mset_eq_imp_distinct_iff)
  with True show ?thesis
    by (simp add: normalize_folders_def unique_folders_keep_first distinct_keep_first)
next
  case False
  then have "\<forall>r \<in> set (unique_folders rs). py_lower (name r) \<noteq> ''inbox''"
    by (auto simp: list_ex_iff is_inbox_def py_upper_inbox_iff)
  moreover have "py_lower ''INBOX'' = ''inbox''" by code_simp
  ultimately have "py_lower ''INBOX'' \<notin> (py_lower \<circ> name) ` set (unique_folders rs)"
    by auto
  with False show ?thesis
    by (simp add: normalize_folders_def Let_def)
       (simp add: unique_folders_keep_first distinct_keep_first)
qed



text \<open>
  What \<open>_normalize_folders\<close> does guarantee: its result starts with the one entry
  whose name is INBOX in any letter case, and when the input already has such an entry
  the entries after it are ordered by lower-cased name.
\<close>

lemma inbox_row_is_inbox: "is_inbox \<lparr>name = ''INBOX'', desc = ''Inbox''\<rparr>"
  by code_simp

lemma normalize_folders_inbox_first:
  "\<exists>r rest. normalize_folders rs = r # rest \<and> is_inbox r \<and> \<not> list_ex is_inbox rest"
proof (cases "list_ex is_inbox (unique_folders rs)")
  case False
  then have "normalize_folders rs = \<lparr>name = ''INBOX'', desc = ''Inbox''\<rparr> # unique_folders rs"
    by (simp add: normalize_folders_def)
  with False inbox_row_is_inbox show ?thesis by blast
next
  case True
  let ?S = "sort_key folder_sort_key (unique_folders rs)"
  from True have n: "normalize_folders rs = ?S" by (simp add: normalize_folders_def)
  from True obtain r0 where r0: "r0 \<in> set ?S" "is_inbox r0"
    by (auto simp: list_ex_iff)
  then obtain r rest where S: "?S = r # rest" by (cases ?S) auto
  have srt: "sorted (map folder_sort_key (r # rest))"
    using sorted_sort_key [of folder_sort_key "unique_folders rs"] S by simp
  have d: "distinct (map (py_lower \<circ> name) (r # rest))"
    using distinct_normalize_folders [of rs] n S by simp
  have low: "is_inbox x \<Longrightarrow> py_lower (name x) = ''inbox''" for x
    by (simp add: is_inbox_def py_upper_inbox_iff)
  have r: "is_inbox r"
  proof (rule ccontr)
    assume nr: "\<not> is_inbox r"
    with r0 S have "r0 \<in> set rest" by auto
    with srt have "folder_sort_key r \<le> folder_sort_key r0" by auto
    with nr r0 show False by (simp add: folder_sort_key_def)
  qed
  have "\<not> list_ex is_inbox rest"
  proof
    assume "list_ex is_inbox rest"
    then obtain x where "x \<in> set rest" "is_inbox x" by (auto simp: list_ex_iff)
    with r low have "(py_lower \<circ> name) r \<in> (py_lower \<circ> name) ` set rest"
      by (metis comp_apply image_eqI)
    with d show False by simp
  qed
  with n S r show ?thesis by simp
qed

lemma normalize_folders_sorted_with_inbox:
  assumes "list_ex is_inbox (unique_folders rs)"
  shows "sorted (map (py_lower \<circ> name) (tl (normalize_folders rs)))"
proof -
  obtain r rest where n: "normalize_folders rs = r # rest" and nb: "\<not> list_ex is_inbox rest"
    using normalize_folders_inbox_first by blast
  from assms have "normalize_folders rs = sort_key folder_sort_key (unique_folders rs)"
    by (simp add: normalize_folders_def)
  with n have "sorted (map folder_sort_key (r # rest))"
    using sorted_sort_key [of folder_sort_key "unique_folders rs"] by simp
  then have "sorted (map folder_sort_key rest)" by simp
  moreover from nb have "map folder_sort_key rest = map (\<lambda>x. (1, py_lower (name x))) rest"
    by (auto simp: list_ex_iff folder_sort_key_def)
  ultimately have "sorted (map (\<lambda>x. (1 :: nat, py_lower (name x))) rest)" by simp
  then have "sorted (map (py_lower \<circ> name) rest)"
    by (simp add: sorted_map sorted_wrt_iff_nth_less)
  with n show ?thesis by simp
qed

text \<open>
  C1. The claim fails on the code where the input has no INBOX: the synthesized INBOX is
  put in front of the de-duplicated rows, which stay in input order; only the branch for
  an input with INBOX sorts. Here "Zeta" stays before "Alpha".
\<close>

theorem normalize_folders_unsorted_without_inbox:
  "normalize_folders [\<lparr>name = ''Zeta'', desc = ''''\<rparr>, \<lparr>name = ''Alpha'', desc = ''''\<rparr>]
   = [\<lparr>name = ''INBOX'', desc = ''Inbox''\<rparr>, \<lparr>name = ''Zeta'', desc = ''''\<rparr>,
      \<lparr>name = ''Alpha'', desc = ''''\<rparr>]
   \<and> \<not> sorted (map (py_lower \<circ> name)
                (tl (normalize_folders [\<lparr>name = ''Zeta'', desc = ''''\<rparr>,
                                         \<lparr>name = ''Alpha'', desc = ''''\<rparr>])))"
  by code_simp

section \<open>Properties of envelope parsing\<close>


















section \<open>Properties of the account switch\<close>

lemma load_page_fields:
  "client (fst (load_page be s reset_cursor msg)) = client s
   \<and> default_sender (fst (load_page be s reset_cursor msg)) = default_sender s
   \<and> (snd (load_page be s reset_cursor msg) \<longrightarrow> page (fst (load_page be s reset_cursor msg)) = page s)
   \<and> (\<not> snd (load_page be s reset_cursor msg) \<longrightarrow>
        page (fst (load_page be s reset_cursor msg)) = (if page s > 1 then page s - 1 else page s))"
  by (auto simp: load_page_def Let_def split: prod.splits sum.splits error.splits)

text \<open>
  What the account switch does when it is confirmed (the configuration lists an account
  and the dialog returns \<open>target\<close>). When the page of the new account loads, the account
  is the target, the folder is INBOX, the page is 1 and the sender is the resolved one if
  that is not empty, the old one otherwise. When it does not load, account, folder and
  sender are the previous ones again, and the page is the previous page if the reload for
  the previous account succeeds.
\<close>

lemma switch_account_confirmed:
  fixes be :: backend and resolve :: "string \<Rightarrow> string \<times> string \<times> string"
    and candidates :: "(string \<times> config_file) list" and target :: string and s :: app
  assumes "fst (list_accounts_from_config candidates) \<noteq> []"
  defines "s' \<equiv> switch_account be resolve candidates (Some target) s"
  defines "s2 \<equiv> (if fst (resolve target) \<noteq> []
                   then (clear_message_view
                          (s\<lparr>client := (client s)\<lparr>account := target, folder := ''INBOX''\<rparr>,
                             page := 1\<rparr>))\<lparr>default_sender := fst (resolve target)\<rparr>
                   else clear_message_view
                          (s\<lparr>client := (client s)\<lparr>account := target, folder := ''INBOX''\<rparr>,
                             page := 1\<rparr>))"
  defines "switching \<equiv> ''Switching account to '' @ py_or target ''(default)'' @ ''...''"
  shows "(snd (load_page be s2 True switching) \<longrightarrow>
            account (client s') = target \<and> folder (client s') = ''INBOX'' \<and> page s' = 1
            \<and> default_sender s' = (if fst (resolve target) \<noteq> [] then fst (resolve target)
                                    else default_sender s))
       \<and> (\<not> snd (load_page be s2 True switching) \<longrightarrow>
            account (client s') = account (client s) \<and> folder (client s') = folder (client s)
            \<and> default_sender s' = default_sender s
            \<and> (page s' = page s \<or> (1 < page s \<and> page s' = page s - 1)))"
proof -
  obtain accounts default_account source_path where
    l: "list_accounts_from_config candidates = (accounts, default_account, source_path)"
    by (cases "list_accounts_from_config candidates") auto
  with assms(1) have ne: "accounts \<noteq> []" by simp
  obtain s3 ok where lp: "load_page be s2 True switching = (s3, ok)"
    by (cases "load_page be s2 True switching") auto
  have f3: "client s3 = client s2" "default_sender s3 = default_sender s2"
    "ok \<Longrightarrow> page s3 = page s2"
    using load_page_fields [of be s2 True switching] lp by auto
  show ?thesis
  proof (cases ok)
    case True
    then have "s' = s3\<lparr>status := switch_done_status target default_account
                          (if fst (resolve target) \<noteq> [] then ''auto-updated'' else ''unchanged'')\<rparr>"
      using lp l ne unfolding s'_def switch_account_def s2_def switching_def
      by (simp add: Let_def)
    with True lp f3 show ?thesis
      by (simp add: s2_def clear_message_view_def)
  next
    case False
    let ?s4 = "clear_message_view
                 (s3\<lparr>client := (client s3)\<lparr>account := account (client s),
                                             folder := folder (client s)\<rparr>,
                     page := page s, default_sender := default_sender s\<rparr>)"
    let ?r = "load_page be ?s4 True ''Restoring previous account...''"
    from False have "s' = (fst ?r)
        \<lparr>status := ''Could not switch to account '' @ [CHR 0x27] @ py_or target ''(default)''
                    @ [CHR 0x27] @ ''. Previous account restored.''\<rparr>"
      using lp l ne unfolding s'_def switch_account_def s2_def switching_def
      by (simp add: Let_def)
    moreover have "client (fst ?r) = client ?s4" "default_sender (fst ?r) = default_sender ?s4"
      "page (fst ?r) = page ?s4 \<or> (1 < page ?s4 \<and> page (fst ?r) = page ?s4 - 1)"
      using load_page_fields [of be ?s4 True "''Restoring previous account...''"]
      by (auto split: if_splits)
    ultimately show ?thesis
      using False lp f3 by (simp add: clear_message_view_def s2_def)
  qed
qed

text \<open>
  C7. The claim fails on the code when the reload for the previous account fails too:
  \<open>_switch_account\<close> puts the previous page back and then calls \<open>_load_page\<close>, which on
  failure steps the page back by one. With the backend unreachable, a switch attempted
  from page 3 of folder "Archive" of account "Work" ends on page 2; account, folder and
  sender are the previous ones.
\<close>

theorem switch_account_rollback_loses_page:
  "page work_app = 3
   \<and> page (switch_account fail_backend no_sender_resolve sample_config (Some ''home'') work_app) = 2
   \<and> account (client (switch_account fail_backend no_sender_resolve sample_config (Some ''home'')
                         work_app)) = ''Work''
   \<and> folder (client (switch_account fail_backend no_sender_resolve sample_config (Some ''home'')
                        work_app)) = ''Archive''
   \<and> default_sender (switch_account fail_backend no_sender_resolve sample_config (Some ''home'')
                       work_app) = ''w@x.org''"
  by code_simp

section \<open>Properties of the reply subject\<close>

text \<open>
  C8. For an opened message, the subject of the reply draft is "Re: " followed by the
  original subject when that is not empty and does not start with "re:" in any letter
  case; it is "Re:" when the original subject is empty; it is the original subject when
  that starts with "re:" in any letter case. So "Hello" gives "Re: Hello", an empty
  subject gives "Re:", and "RE: hi" stays.
\<close>

theorem reply_subject_prefix:
  assumes "current_message_id s = Some message_id"
  shows "(original_subject s \<noteq> [] \<and> \<not> prefix ''re:'' (py_lower (original_subject s))
            \<longrightarrow> compose_subject (open_reply_compose_page build_reply_to s reply_all)
                = ''Re: '' @ original_subject s)
       \<and> (original_subject s = []
            \<longrightarrow> compose_subject (open_reply_compose_page build_reply_to s reply_all) = ''Re:'')
       \<and> (prefix ''re:'' (py_lower (original_subject s))
            \<longrightarrow> compose_subject (open_reply_compose_page build_reply_to s reply_all)
                = original_subject s)"
proof -
  obtain hs body_lines where
    sp: "split_headers_and_body_from_message (message_lines s) = (hs, body_lines)"
    by (cases "split_headers_and_body_from_message (message_lines s)") auto
  have "compose_subject (open_reply_compose_page build_reply_to s reply_all) = reply_subject hs"
    using assms sp by (simp add: open_reply_compose_page_def open_compose_page_def)
  moreover have "original_subject s = py_strip (dict_get hs ''subject'' [])"
    using sp by (simp add: original_subject_def)
  moreover have "prefix ''re:'' (py_lower x) \<Longrightarrow> x \<noteq> []" for x
    by (auto simp: py_lower_def)
  ultimately show ?thesis
    by (auto simp: reply_subject_def Let_def py_startswith_def)
qed

lemma opened_message_subjects:
  "original_subject (opened_message ''Subject: Hello'') = ''Hello''"
  "original_subject (opened_message ''Subject: RE: hi'') = ''RE: hi''"
  "original_subject (opened_message ''Subject:'') = ''''"
  "current_message_id (opened_message x) = Some 7"
  "\<not> prefix ''re:'' (py_lower ''Hello'')"
  "prefix ''re:'' (py_lower ''RE: hi'')"
  by code_simp+

theorem reply_subject_prefix_witness:
  "compose_subject (open_reply_compose_page reply_to_sender (opened_message ''Subject: Hello'') False)
     = ''Re: Hello''
   \<and> compose_subject (open_reply_compose_page reply_to_sender (opened_message ''Subject:'') True)
     = ''Re:''
   \<and> compose_subject (open_reply_compose_page reply_to_sender (opened_message ''Subject: RE: hi'') False)
     = ''RE: hi''"
proof (intro conjI)
  note m = opened_message_subjects
  show "compose_subject (open_reply_compose_page reply_to_sender (opened_message ''Subject: Hello'') False)
     = ''Re: Hello''"
    using reply_subject_prefix [OF m(4), of "''Subject: Hello''" reply_to_sender False, THEN conjunct1]
    by (simp only: m; simp)
  show "compose_subject (open_reply_compose_page reply_to_sender (opened_message ''Subject:'') True)
     = ''Re:''"
    using reply_subject_prefix [OF m(4), of "''Subject:''" reply_to_sender True,
            THEN conjunct2, THEN conjunct1]
    by (simp only: m; simp)
  show "compose_subject (open_reply_compose_page reply_to_sender (opened_message ''Subject: RE: hi'') False)
     = ''RE: hi''"
    using reply_subject_prefix [OF m(4), of "''Subject: RE: hi''" reply_to_sender False,
            THEN conjunct2, THEN conjunct2]
    by (simp only: m; simp)
qed

section \<open>Properties of compose body editing\<close>

lemma list_get_Some: "0 \<le> i \<Longrightarrow> i < py_len xs \<Longrightarrow> list_get xs i = Some (xs ! nat i)"
  by (simp add: list_get_def norm_index_def)

lemma list_set_Some: "0 \<le> i \<Longrightarrow> i < py_len xs \<Longrightarrow> list_set xs i v = Some (xs[nat i := v])"
  by (simp add: list_set_def norm_index_def)

lemma list_del_Some:
  "0 \<le> i \<Longrightarrow> i < py_len xs \<Longrightarrow> list_del xs i = Some (take (nat i) xs @ drop (Suc (nat i)) xs)"
  by (simp add: list_del_def norm_index_def)

lemma py_len_update: "py_len (xs[i := v]) = py_len xs"
  by (simp add: py_len_def)

lemma py_len_pos: "xs \<noteq> [] \<Longrightarrow> 0 < py_len xs"
  by (simp add: py_len_def)

lemma ensure_compose_body_valid_ok:
  "\<exists>s. ensure_compose_body_valid s0 = Some s \<and> compose_body_valid s"
proof -
  define lines where "lines = (if compose_body_lines s0 = [] then [''''] else compose_body_lines s0)"
  define row where "row = max 0 (min (compose_body_row s0) (py_len lines - 1))"
  have ne: "lines \<noteq> []" by (simp add: lines_def)
  then have "0 < py_len lines" by (rule py_len_pos)
  then have r: "0 \<le> row" "row < py_len lines" by (auto simp: row_def)
  then have g: "list_get lines row = Some (lines ! nat row)" by (rule list_get_Some)
  have c: "0 \<le> py_len (lines ! nat row)" by (simp add: py_len_def)
  have "ensure_compose_body_valid s0
        = Some (s0\<lparr>compose_body_lines := lines, compose_body_row := row,
                   compose_body_col := max 0 (min (compose_body_col s0) (py_len (lines ! nat row)))\<rparr>)"
    unfolding ensure_compose_body_valid_def Let_def lines_def [symmetric] row_def [symmetric]
    by (simp only: g bind.bind_lunit)
  moreover have "compose_body_valid
        (s0\<lparr>compose_body_lines := lines, compose_body_row := row,
            compose_body_col := max 0 (min (compose_body_col s0) (py_len (lines ! nat row)))\<rparr>)"
    using ne r c by (simp add: compose_body_valid_def)
  ultimately show ?thesis by blast
qed

lemma if_keeps_lines:
  "(c \<Longrightarrow> keeps_lines a) \<Longrightarrow> (\<not> c \<Longrightarrow> keeps_lines b) \<Longrightarrow> keeps_lines (if c then a else b)"
  by simp

lemma keeps_lines_Some: "lines1 \<noteq> [] \<Longrightarrow> keeps_lines (Some (lines1, row1, col1))"
  by (simp add: keeps_lines_def)

lemma edit_body_key_ok:
  assumes "lines \<noteq> []" "0 \<le> row" "row < py_len lines"
  shows "keeps_lines (edit_body_key lines row col line ch)"
proof -
  have up: "row > 0 \<Longrightarrow> list_get lines (row - 1) = Some (lines ! nat (row - 1))"
    using assms by (intro list_get_Some) auto
  have down: "row + 1 < py_len lines \<Longrightarrow> list_get lines (row + 1) = Some (lines ! nat (row + 1))"
    using assms by (intro list_get_Some) auto
  have set_row: "list_set lines row v = Some (lines[nat row := v])" for v
    using assms by (intro list_set_Some) auto
  have set_prev: "row > 0 \<Longrightarrow> list_set lines (row - 1) v = Some (lines[nat (row - 1) := v])" for v
    using assms by (intro list_set_Some) auto
  have del_row: "list_del (lines[i := v]) row
                 = Some (take (nat row) (lines[i := v]) @ drop (Suc (nat row)) (lines[i := v]))" for i v
    using assms by (intro list_del_Some) (auto simp: py_len_update)
  have del_next: "row + 1 < py_len lines \<Longrightarrow> list_del (lines[i := v]) (row + 1)
                 = Some (take (nat (row + 1)) (lines[i := v])
                         @ drop (Suc (nat (row + 1))) (lines[i := v]))" for i v
    using assms by (intro list_del_Some) (auto simp: py_len_update)
  have npage: "list_get lines (min (py_len lines - 1) (row + 10))
               = Some (lines ! nat (min (py_len lines - 1) (row + 10)))"
    using assms by (intro list_get_Some) auto
  have ppage: "list_get lines (max 0 (row - 10)) = Some (lines ! nat (max 0 (row - 10)))"
    using assms by (intro list_get_Some) auto
  have upd_ne: "lines[j := v] \<noteq> []" for j v
    using assms by simp
  have take_ne: "0 < i \<Longrightarrow> take (nat i) (lines[j := v]) \<noteq> []" for i j v
    using upd_ne [of j v] by (cases "lines[j := v]") (auto simp: take_Cons' )
  note ks = keeps_lines_Some
  show ?thesis
    unfolding edit_body_key_def Let_def
  proof (intro if_keeps_lines)
    assume "0 < row"
    then show "keeps_lines (do { l \<leftarrow> list_get lines (row - 1);
                                  Some (lines, row - 1, min col (py_len l)) })"
      using assms by (simp add: up ks)
  next
    assume "row + 1 < py_len lines"
    then show "keeps_lines (do { l \<leftarrow> list_get lines (row + 1);
                                  Some (lines, row + 1, min col (py_len l)) })"
      using assms by (simp add: down ks)
  next
    assume "0 < row"
    then show "keeps_lines (do { l \<leftarrow> list_get lines (row - 1); Some (lines, row - 1, py_len l) })"
      using assms by (simp add: up ks)
  next
    show "keeps_lines (do {
           lines1 \<leftarrow> list_set lines row (slice_to line (col - 1) @ slice_from line col);
           Some (lines1, row, col - 1) })"
      using assms by (simp add: set_row ks)
  next
    assume "0 < row"
    then show "keeps_lines (do {
           prev \<leftarrow> list_get lines (row - 1);
           lines1 \<leftarrow> list_set lines (row - 1) (prev @ line);
           lines2 \<leftarrow> list_del lines1 row;
           Some (lines2, row - 1, py_len prev) })"
      using assms by (simp add: up set_prev del_row ks take_ne)
  next
    show "keeps_lines (do {
           lines1 \<leftarrow> list_set lines row (slice_to line col @ slice_from line (col + 1));
           Some (lines1, row, col) })"
      using assms by (simp add: set_row ks)
  next
    assume "row + 1 < py_len lines"
    then show "keeps_lines (do {
           nxt \<leftarrow> list_get lines (row + 1);
           lines1 \<leftarrow> list_set lines row (line @ nxt);
           lines2 \<leftarrow> list_del lines1 (row + 1);
           Some (lines2, row, col) })"
      using assms by (simp add: down set_row del_next ks take_ne)
  next
    show "keeps_lines (do {
          lines1 \<leftarrow> list_set lines row (slice_to line col);
          Some (list_insert lines1 (row + 1) (slice_from line col), row + 1, 0) })"
      by (simp add: set_row ks list_insert_def)
  next
    show "keeps_lines (do { l \<leftarrow> list_get lines (min (py_len lines - 1) (row + 10));
                            Some (lines, min (py_len lines - 1) (row + 10), min col (py_len l)) })"
      using assms by (simp only: npage bind.bind_lunit) (simp add: ks)
  next
    show "keeps_lines (do { l \<leftarrow> list_get lines (max 0 (row - 10));
                            Some (lines, max 0 (row - 10), min col (py_len l)) })"
      using assms by (simp only: ppage bind.bind_lunit) (simp add: ks)
  next
    show "keeps_lines (do {
          lines1 \<leftarrow> list_set lines row (slice_to line col @ [char_of (nat ch)] @ slice_from line col);
          Some (lines1, row, col + 1) })"
      using assms by (simp add: set_row ks)
  qed (use assms in \<open>simp_all add: ks\<close>)
qed

lemma final_clamp_ok:
  assumes "lines1 \<noteq> []"
  shows "\<exists>line2. list_get lines1 (max 0 (min row1 (py_len lines1 - 1))) = Some line2
          \<and> compose_body_valid
               (s\<lparr>compose_body_lines := lines1,
                  compose_body_row := max 0 (min row1 (py_len lines1 - 1)),
                  compose_body_col := max 0 (min col1 (py_len line2))\<rparr>)"
proof -
  let ?row = "max 0 (min row1 (py_len lines1 - 1))"
  from assms have "0 < py_len lines1" by (rule py_len_pos)
  then have r: "0 \<le> ?row" "?row < py_len lines1" by auto
  then have g: "list_get lines1 ?row = Some (lines1 ! nat ?row)" by (rule list_get_Some)
  have c: "0 \<le> py_len (lines1 ! nat ?row)" by (simp add: py_len_def)
  show ?thesis
    using g r c assms by (simp add: compose_body_valid_def)
qed

text \<open>
  C10. From every state, whatever its body lines, row and column, and for every key code,
  \<open>_edit_body\<close> returns without an index error, in a state where the body has at least
  one line, the row is an index of a line and the column lies between 0 and the length of
  that line.
\<close>

theorem edit_body_keeps_cursor_valid:
  "\<exists>s'. edit_body s ch = Some s' \<and> compose_body_valid s'"
proof -
  obtain s1 where e: "ensure_compose_body_valid s = Some s1" and v: "compose_body_valid s1"
    using ensure_compose_body_valid_ok by blast
  from v have l: "compose_body_lines s1 \<noteq> []" "0 \<le> compose_body_row s1"
    "compose_body_row s1 < py_len (compose_body_lines s1)"
    by (simp_all add: compose_body_valid_def)
  then have g: "list_get (compose_body_lines s1) (compose_body_row s1)
                = Some (compose_body_lines s1 ! nat (compose_body_row s1))"
    by (intro list_get_Some)
  let ?line = "compose_body_lines s1 ! nat (compose_body_row s1)"
  obtain lines1 row1 col1 where
    k: "edit_body_key (compose_body_lines s1) (compose_body_row s1)
          (max 0 (min (compose_body_col s1) (py_len ?line))) ?line ch = Some (lines1, row1, col1)"
    and ne: "lines1 \<noteq> []"
    using edit_body_key_ok [OF l] unfolding keeps_lines_def by blast
  obtain line2 where
    f: "list_get lines1 (max 0 (min row1 (py_len lines1 - 1))) = Some line2"
    and fv: "compose_body_valid
               (s1\<lparr>compose_body_lines := lines1,
                   compose_body_row := max 0 (min row1 (py_len lines1 - 1)),
                   compose_body_col := max 0 (min col1 (py_len line2))\<rparr>)"
    using final_clamp_ok [OF ne] by blast
  have "edit_body s ch
        = Some (s1\<lparr>compose_body_lines := lines1,
                   compose_body_row := max 0 (min row1 (py_len lines1 - 1)),
                   compose_body_col := max 0 (min col1 (py_len line2))\<rparr>)"
    by (simp add: edit_body_def e g k f Let_def)
  with fv show ?thesis by blast
qed

end
